theory Spec2Isabelle
  imports Complex_Main "HOL-Library.AList"
begin

section \<open>Overlay position resolver (overlay-position-base.directive.ts)\<close>

text \<open>
  The tip position is a string at run time: the directives' input setters take a
  \<^verbatim>\<open>string\<close> and cast it to \<^verbatim>\<open>OverlayTipPosition\<close>, so any literal can reach the
  resolver. The connection positions are the CDK's closed string unions.
\<close>

datatype HorizontalConnectionPos = XStart | XCenter | XEnd

datatype VerticalConnectionPos = YTop | YCenter | YBottom

text \<open>\<^verbatim>\<open>Directionality.value\<close>; the directive's \<^verbatim>\<open>_dir\<close> itself may be absent (\<open>None\<close>).\<close>

datatype Direction = Ltr | Rtl

record OriginConnectionPosition =
  originX :: HorizontalConnectionPos
  originY :: VerticalConnectionPos

record OverlayConnectionPosition =
  overlayX :: HorizontalConnectionPos
  overlayY :: VerticalConnectionPos

record 'a WithFallback =
  main :: 'a
  fallback :: 'a

text \<open>
  The two ways the resolver can fail: the error built by
  \<^verbatim>\<open>throwInvalidTutorialTipPosition\<close>, and the \<^verbatim>\<open>TypeError\<close> JavaScript raises when a
  property is read from \<^verbatim>\<open>undefined\<close> (the \<^verbatim>\<open>!\<close> of \<^verbatim>\<open>originPosition!.originX\<close> is
  erased by the compiler and checks nothing).
\<close>

datatype error = InvalidTutorialTipPosition | TypeError

definition isLtr :: "Direction option \<Rightarrow> bool" where
  "isLtr dir = (dir = None \<or> dir = Some Ltr)"

definition invertPosition ::
  "string \<Rightarrow> HorizontalConnectionPos \<Rightarrow> VerticalConnectionPos
     \<Rightarrow> HorizontalConnectionPos \<times> VerticalConnectionPos" where
  "invertPosition tipPosition x y =
     (if tipPosition = ''above'' \<or> tipPosition = ''below''
      then (x, if y = YTop then YBottom else if y = YBottom then YTop else y)
      else (if x = XEnd then XStart else if x = XStart then XEnd else x, y))"

text \<open>
  \<open>originPosition\<close> is declared without a value, so it is \<^verbatim>\<open>undefined\<close> (\<open>None\<close>) when
  no branch assigns it. \<open>production\<close> is \<^verbatim>\<open>environment.production\<close>.
\<close>

definition originPosition_of ::
  "bool \<Rightarrow> Direction option \<Rightarrow> string \<Rightarrow> error + OriginConnectionPosition option" where
  "originPosition_of production dir position =
     (if position = ''above'' \<or> position = ''below''
      then Inr (Some \<lparr>originX = XCenter,
                      originY = (if position = ''above'' then YTop else YBottom)\<rparr>)
      else if position = ''before'' \<or> (position = ''left'' \<and> isLtr dir)
                \<or> (position = ''right'' \<and> \<not> isLtr dir)
      then Inr (Some \<lparr>originX = XStart, originY = YCenter\<rparr>)
      else if position = ''after'' \<or> (position = ''right'' \<and> isLtr dir)
                \<or> (position = ''left'' \<and> \<not> isLtr dir)
      then Inr (Some \<lparr>originX = XEnd, originY = YCenter\<rparr>)
      else if \<not> production then Inl InvalidTutorialTipPosition
      else Inr None)"

definition getOrigin ::
  "bool \<Rightarrow> Direction option \<Rightarrow> string \<Rightarrow> error + OriginConnectionPosition WithFallback" where
  "getOrigin production dir tipPosition =
     (case originPosition_of production dir tipPosition of
        Inl e \<Rightarrow> Inl e
      | Inr None \<Rightarrow> Inl TypeError
      | Inr (Some p) \<Rightarrow>
          (case invertPosition tipPosition (originX p) (originY p) of
             (x, y) \<Rightarrow> Inr \<lparr>main = p, fallback = \<lparr>originX = x, originY = y\<rparr>\<rparr>))"

definition overlayPosition_of ::
  "bool \<Rightarrow> Direction option \<Rightarrow> string \<Rightarrow> error + OverlayConnectionPosition option" where
  "overlayPosition_of production dir position =
     (if position = ''above''
      then Inr (Some \<lparr>overlayX = XCenter, overlayY = YBottom\<rparr>)
      else if position = ''below''
      then Inr (Some \<lparr>overlayX = XCenter, overlayY = YTop\<rparr>)
      else if position = ''before'' \<or> (position = ''left'' \<and> isLtr dir)
                \<or> (position = ''right'' \<and> \<not> isLtr dir)
      then Inr (Some \<lparr>overlayX = XEnd, overlayY = YCenter\<rparr>)
      else if position = ''after'' \<or> (position = ''right'' \<and> isLtr dir)
                \<or> (position = ''left'' \<and> \<not> isLtr dir)
      then Inr (Some \<lparr>overlayX = XStart, overlayY = YCenter\<rparr>)
      else if \<not> production then Inl InvalidTutorialTipPosition
      else Inr None)"

definition getOverlayPosition ::
  "bool \<Rightarrow> Direction option \<Rightarrow> string \<Rightarrow> error + OverlayConnectionPosition WithFallback" where
  "getOverlayPosition production dir tipPosition =
     (case overlayPosition_of production dir tipPosition of
        Inl e \<Rightarrow> Inl e
      | Inr None \<Rightarrow> Inl TypeError
      | Inr (Some p) \<Rightarrow>
          (case invertPosition tipPosition (overlayX p) (overlayY p) of
             (x, y) \<Rightarrow> Inr \<lparr>main = p, fallback = \<lparr>overlayX = x, overlayY = y\<rparr>\<rparr>))"

text \<open>The six literals of \<^verbatim>\<open>OverlayTipPosition\<close>.\<close>

definition OverlayTipPositions :: "string list" where
  "OverlayTipPositions = [''left'', ''right'', ''above'', ''below'', ''before'', ''after'']"

section \<open>Step heuristic constants and the vertical fit test\<close>

text \<open>
  Pixel quantities are JavaScript numbers; they are modelled as reals, so the rounding
  of double arithmetic is not part of the model.
\<close>

definition HAND_HOLDER_STEP_MAX_HEIGHT :: real where
  "HAND_HOLDER_STEP_MAX_HEIGHT = 532"

definition HAND_HOLDER_STEP_MAX_WIDTH :: real where
  "HAND_HOLDER_STEP_MAX_WIDTH = 350"

definition isTipFitVertically :: "real \<Rightarrow> real \<Rightarrow> bool" where
  "isTipFitVertically viewportHeight elHeight =
     (elHeight < viewportHeight - HAND_HOLDER_STEP_MAX_HEIGHT)"

section \<open>Walkthrough store (\<^verbatim>\<open>AppWalkthroughStore\<close>)\<close>

record TutorialTooltipStep =
  title :: string
  exempt :: string

type_synonym PageTooltipSteps = "(string \<times> TutorialTooltipStep) list"

text \<open>One entry of \<^verbatim>\<open>HandHoldersPositions\<close>: \<^verbatim>\<open>{ position, step }\<close>.\<close>

record HandHolderPos =
  position :: string
  step :: int

text \<open>
  JavaScript objects used as dictionaries are association lists in key order; the object
  spread \<^verbatim>\<open>{...o, [k]: v}\<close> is \<^const>\<open>AList.update\<close> (an existing key keeps its place, a
  new key goes last), \<^verbatim>\<open>o[k]\<close> is \<^const>\<open>map_of\<close> and \<^verbatim>\<open>Object.keys(o)\<close> is \<open>map fst\<close>.
\<close>

type_synonym HandHoldersPositions = "(string \<times> HandHolderPos) list"

type_synonym CurrentGroup = "(int \<times> string) list"

text \<open>
  Step ordinals are JavaScript numbers holding integers and are modelled as \<^typ>\<open>int\<close>
  (exact in the source below \<open>2^53\<close>). \<^verbatim>\<open>undefined + 1\<close> is \<^verbatim>\<open>NaN\<close>, which the total
  step count can therefore hold.
\<close>

datatype number = Num int | NaN

text \<open>
  The values held by the store. \<open>currentStep\<close>, \<open>handHolderTooltips\<close> and
  \<open>handHolderTooltipsPage\<close> are the values of the three \<^verbatim>\<open>BehaviorSubject\<close>s;
  \<open>prevHandHolderPosition\<close> is declared without a value (\<open>None\<close> is \<^verbatim>\<open>undefined\<close>);
  \<open>untilEmitted\<close> counts the emissions of \<^verbatim>\<open>_until$\<close>, \<open>destroyed\<close> records that
  \<^verbatim>\<open>_until$\<close> was completed and the scroll listener cleaned up.
\<close>

record AppWalkthroughStore =
  handHolderTooltipsPage :: string
  handHolderTooltips :: "PageTooltipSteps option"
  currentStep :: int
  currentGroup :: "CurrentGroup option"
  allSteps :: number
  prevHandHolderPosition :: "HandHoldersPositions option"
  untilEmitted :: nat
  destroyed :: bool

definition newAppWalkthroughStore :: AppWalkthroughStore where
  "newAppWalkthroughStore =
     \<lparr>handHolderTooltipsPage = ''HomePage'', handHolderTooltips = None, currentStep = 0,
      currentGroup = None, allSteps = Num 0, prevHandHolderPosition = None,
      untilEmitted = 0, destroyed = False\<rparr>"

definition setHandHolderTooltipPage :: "string \<Rightarrow> AppWalkthroughStore \<Rightarrow> AppWalkthroughStore" where
  "setHandHolderTooltipPage page s = s\<lparr>handHolderTooltipsPage := page\<rparr>"

definition setHandHolderTooltips :: "PageTooltipSteps \<Rightarrow> AppWalkthroughStore \<Rightarrow> AppWalkthroughStore" where
  "setHandHolderTooltips tips s = s\<lparr>handHolderTooltips := Some tips\<rparr>"

text \<open>\<^verbatim>\<open>{...a}\<close> of \<^verbatim>\<open>null\<close> or \<^verbatim>\<open>undefined\<close> is the empty object.\<close>

definition spread :: "('k \<times> 'v) list option \<Rightarrow> ('k \<times> 'v) list" where
  "spread o' = (case o' of None \<Rightarrow> [] | Some kvs \<Rightarrow> kvs)"

definition setCurrentGroup :: "CurrentGroup \<Rightarrow> AppWalkthroughStore \<Rightarrow> AppWalkthroughStore" where
  "setCurrentGroup grp s =
     s\<lparr>currentGroup :=
         Some (foldl (\<lambda>acc (k, v). AList.update k v acc) (spread (currentGroup s)) grp)\<rparr>"

definition setAllSteps :: "number \<Rightarrow> AppWalkthroughStore \<Rightarrow> AppWalkthroughStore" where
  "setAllSteps steps s = s\<lparr>allSteps := steps\<rparr>"

text \<open>
  The \<open>stp\<close> argument is the directive's \<^verbatim>\<open>_handHolderStep\<close>, which is \<^verbatim>\<open>undefined\<close>
  (\<open>None\<close>) until its input is set; \<^verbatim>\<open>===\<close> of a number with \<^verbatim>\<open>undefined\<close> is false.
\<close>

definition setPrevHandHolderStepPos ::
  "string \<Rightarrow> int option \<Rightarrow> string \<Rightarrow> AppWalkthroughStore \<Rightarrow> AppWalkthroughStore" where
  "setPrevHandHolderStepPos pos stp key s =
     (case stp of
        None \<Rightarrow> s
      | Some n \<Rightarrow>
          if currentStep s = n
          then s\<lparr>prevHandHolderPosition :=
                   Some (AList.update key \<lparr>position = pos, step = n\<rparr>
                           (spread (prevHandHolderPosition s)))\<rparr>
          else s)"

definition resetHandHoldersPos :: "HandHoldersPositions \<Rightarrow> AppWalkthroughStore \<Rightarrow> AppWalkthroughStore" where
  "resetHandHoldersPos newPos s = s\<lparr>prevHandHolderPosition := Some newPos\<rparr>"

definition incrementStep :: "AppWalkthroughStore \<Rightarrow> AppWalkthroughStore" where
  "incrementStep s = (let curr = currentStep s; next = curr + 1 in s\<lparr>currentStep := next\<rparr>)"

definition killTutorial :: "AppWalkthroughStore \<Rightarrow> AppWalkthroughStore" where
  "killTutorial s =
     s\<lparr>untilEmitted := untilEmitted s + 1, currentStep := 0, handHolderTooltips := None\<rparr>"

definition ngOnDestroy :: "AppWalkthroughStore \<Rightarrow> AppWalkthroughStore" where
  "ngOnDestroy s =
     s\<lparr>allSteps := Num 0, currentGroup := None, untilEmitted := untilEmitted s + 1,
       destroyed := True\<rparr>"

text \<open>Every public method of the store that writes to it, as one call with its arguments.\<close>

datatype StoreCall =
    SetHandHolderTooltipPage string
  | SetHandHolderTooltips PageTooltipSteps
  | SetCurrentGroup CurrentGroup
  | SetAllSteps number
  | SetPrevHandHolderStepPos string "int option" string
  | ResetHandHoldersPos HandHoldersPositions
  | IncrementStep
  | KillTutorial
  | NgOnDestroy

fun call :: "StoreCall \<Rightarrow> AppWalkthroughStore \<Rightarrow> AppWalkthroughStore" where
  "call (SetHandHolderTooltipPage page) s = setHandHolderTooltipPage page s"
| "call (SetHandHolderTooltips tips) s = setHandHolderTooltips tips s"
| "call (SetCurrentGroup grp) s = setCurrentGroup grp s"
| "call (SetAllSteps steps) s = setAllSteps steps s"
| "call (SetPrevHandHolderStepPos pos stp key) s = setPrevHandHolderStepPos pos stp key s"
| "call (ResetHandHoldersPos newPos) s = resetHandHoldersPos newPos s"
| "call IncrementStep s = incrementStep s"
| "call KillTutorial s = killTutorial s"
| "call NgOnDestroy s = ngOnDestroy s"

text \<open>The override stored for a key: \<^verbatim>\<open>prevHandHolderPosition()[key]\<close>.\<close>

definition prevPosOf :: "AppWalkthroughStore \<Rightarrow> string \<Rightarrow> HandHolderPos option" where
  "prevPosOf s key = map_of (spread (prevHandHolderPosition s)) key"

section \<open>Hand holder directive (\<^verbatim>\<open>HandHolderBaseDirective\<close>)\<close>

text \<open>
  The fields the step logic reads and writes. \<open>handHolder\<close>, \<open>handHolderStep\<close> and
  \<open>appearsInGroup\<close> are \<^verbatim>\<open>undefined\<close> (\<open>None\<close>) until their inputs are set; an unset
  \<^verbatim>\<open>_isLastStep\<close> is falsy.
\<close>

record HandHolderBaseDirective =
  tipPosition :: string
  handHolder :: "string option"
  handHolderStep :: "int option"
  isLastStep :: bool
  appearsInGroup :: "string option"

text \<open>
  A directive as its constructor leaves it: the tip position defaults to \<^verbatim>\<open>below\<close>, no
  input is set.
\<close>

definition newHandHolderBaseDirective :: HandHolderBaseDirective where
  "newHandHolderBaseDirective =
     \<lparr>tipPosition = ''below'', handHolder = None, handHolderStep = None,
      isLastStep = False, appearsInGroup = None\<rparr>"

text \<open>Truthiness of an optional string: \<^verbatim>\<open>undefined\<close> and \<^verbatim>\<open>''\<close> are falsy.\<close>

definition truthy :: "string option \<Rightarrow> bool" where
  "truthy v = (case v of None \<Rightarrow> False | Some str \<Rightarrow> str \<noteq> [])"

text \<open>
  What one run of the step logic works on: the directive, the store it holds, and the
  \<^verbatim>\<open>top\<close> values of the calls of \<^verbatim>\<open>_main.scroll\<close> it made, in order.
\<close>

record StepState =
  directive :: HandHolderBaseDirective
  store :: AppWalkthroughStore
  scrollRequests :: "real list"

text \<open>What the step logic reads from the page.\<close>

record ViewportRect =
  viewWidth :: real
  viewHeight :: real

record DOMRect =
  rectX :: real
  rectY :: real
  rectWidth :: real
  rectHeight :: real

record Layout =
  viewportRect :: ViewportRect
  boundingClientRect :: DOMRect
  mainScrollTop :: real
  mainScrollLeft :: real

text \<open>\<^verbatim>\<open>DOMRect.top\<close> and \<^verbatim>\<open>DOMRect.left\<close>, as the DOM defines them.\<close>

definition rectTop :: "DOMRect \<Rightarrow> real" where
  "rectTop box = min (rectY box) (rectY box + rectHeight box)"

definition rectLeft :: "DOMRect \<Rightarrow> real" where
  "rectLeft box = min (rectX box) (rectX box + rectWidth box)"

text \<open>\<^verbatim>\<open>Math.round\<close>: to the nearest integer, halves upwards.\<close>

definition Math_round :: "real \<Rightarrow> real" where
  "Math_round v = of_int \<lfloor>v + 1 / 2\<rfloor>"

record ElemRect =
  erTop :: real
  erLeft :: real
  erHeight :: real

definition getElemRect :: "Layout \<Rightarrow> ElemRect" where
  "getElemRect l =
     (let box = boundingClientRect l;
          top = mainScrollTop l + rectTop box;
          left = mainScrollLeft l + rectLeft box
      in \<lparr>erTop = Math_round top, erLeft = Math_round left, erHeight = rectHeight box\<rparr>)"

definition getTopViewportOffset :: "Layout \<Rightarrow> real" where
  "getTopViewportOffset l = viewHeight (viewportRect l) * (3 / 10)"

definition scrollVerticallyBy :: "real \<Rightarrow> StepState \<Rightarrow> StepState" where
  "scrollVerticallyBy amount st = st\<lparr>scrollRequests := scrollRequests st @ [amount]\<rparr>"

datatype ScrollOption = Fullway | Halfway

definition scrollToHookedElement :: "Layout \<Rightarrow> ScrollOption \<Rightarrow> real \<Rightarrow> StepState \<Rightarrow> StepState" where
  "scrollToHookedElement l opt offset st =
     (let r = getElemRect l; newTop = erTop r + offset
      in case opt of
           Fullway \<Rightarrow> scrollVerticallyBy (newTop - getTopViewportOffset l) st
         | Halfway \<Rightarrow> scrollVerticallyBy (newTop - erHeight r / (3 / 2)) st)"

definition positionIs :: "string \<Rightarrow> StepState \<Rightarrow> bool" where
  "positionIs pos st = (tipPosition (directive st) = pos)"

text \<open>
  \<^verbatim>\<open>String.prototype.match\<close> with an unanchored alternation of literals, such as
  \<^verbatim>\<open>/(left|before)/\<close>: the string contains one of the literals.
\<close>

fun startsWith :: "string \<Rightarrow> string \<Rightarrow> bool" where
  "startsWith str [] = True"
| "startsWith [] (p # ps) = False"
| "startsWith (c # cs) (p # ps) = (c = p \<and> startsWith cs ps)"

fun strIncludes :: "string \<Rightarrow> string \<Rightarrow> bool" where
  "strIncludes [] lit = (lit = [])"
| "strIncludes (c # cs) lit = (startsWith (c # cs) lit \<or> strIncludes cs lit)"

definition anyPosition :: "string list \<Rightarrow> StepState \<Rightarrow> bool" where
  "anyPosition literals st = list_ex (strIncludes (tipPosition (directive st))) literals"

text \<open>
  A value used as a property key, in \<^verbatim>\<open>o[k]\<close> and in \<^verbatim>\<open>{[k]: v}\<close>, is turned into a
  string: \<^verbatim>\<open>undefined\<close> is the key \<^verbatim>\<open>"undefined"\<close>. Comparison with \<^verbatim>\<open>===\<close> does no such
  thing: no string equals \<^verbatim>\<open>undefined\<close>.
\<close>

definition propertyKey :: "string option \<Rightarrow> string" where
  "propertyKey k = (case k of None \<Rightarrow> ''undefined'' | Some str \<Rightarrow> str)"

text \<open>
  \<open>makePosition\<close> hands \<^verbatim>\<open>_handHolder\<close> to the store, which uses it as a computed
  property key only.
\<close>

definition makePosition :: "string \<Rightarrow> StepState \<Rightarrow> StepState" where
  "makePosition pos st =
     (let d = directive st;
          s = (if \<not> truthy (appearsInGroup d)
               then setPrevHandHolderStepPos (tipPosition d) (handHolderStep d)
                      (propertyKey (handHolder d)) (store st)
               else store st)
      in st\<lparr>directive := d\<lparr>tipPosition := pos\<rparr>, store := s\<rparr>)"

definition positionHandHolderStep :: "Layout \<Rightarrow> StepState \<Rightarrow> StepState" where
  "positionHandHolderStep l st =
     (let vieportWidth = viewWidth (viewportRect l);
          viewportHeight = viewHeight (viewportRect l);
          halfViewportWidth = vieportWidth / 2;
          x = rectX (boundingClientRect l);
          y = rectY (boundingClientRect l);
          hookedElWidth = rectWidth (boundingClientRect l);
          hookedElHeight = rectHeight (boundingClientRect l);
          deltaWidth = vieportWidth - hookedElWidth
      in
      if deltaWidth < HAND_HOLDER_STEP_MAX_HEIGHT then
        if positionIs ''above'' st then
          if y \<ge> HAND_HOLDER_STEP_MAX_HEIGHT then scrollToHookedElement l Halfway 0 st
          else if \<bar>y\<bar> \<ge> 260 \<and> mainScrollTop l \<ge> 260 then
            if isTipFitVertically viewportHeight hookedElHeight
            then scrollVerticallyBy (mainScrollTop l - 100) st
            else scrollVerticallyBy (mainScrollTop l - 260) st
          else st
        else if positionIs ''below'' st then
          if isTipFitVertically viewportHeight hookedElHeight
          then scrollToHookedElement l Fullway 0 st
          else scrollVerticallyBy (mainScrollTop l + y) st
        else if anyPosition [''left'', ''before'', ''right'', ''after''] st then
          if y \<ge> HAND_HOLDER_STEP_MAX_HEIGHT
          then scrollToHookedElement l Halfway 0 (makePosition ''above'' st)
          else if y \<le> - 260 \<and> mainScrollTop l \<ge> 260
          then scrollToHookedElement l Fullway (- 160) (makePosition ''above'' st)
          else st
        else st
      else if positionIs ''above'' st then
        if isTipFitVertically viewportHeight hookedElHeight then
          if y \<ge> HAND_HOLDER_STEP_MAX_HEIGHT then scrollToHookedElement l Fullway 0 st
          else makePosition ''below'' st
        else st
      else if x < halfViewportWidth \<and> x < HAND_HOLDER_STEP_MAX_WIDTH
                \<and> anyPosition [''left'', ''before''] st
      then scrollToHookedElement l Fullway 0 (makePosition ''right'' st)
      else if x > halfViewportWidth \<and> x < vieportWidth - HAND_HOLDER_STEP_MAX_WIDTH
                \<and> anyPosition [''right'', ''after''] st
      then scrollToHookedElement l Fullway 0 (makePosition ''left'' st)
      else scrollToHookedElement l Fullway 0 st)"

text \<open>
  \<^verbatim>\<open>_resetHandHolderPosition\<close>. The entry is looked up with \<^verbatim>\<open>_handHolder\<close> as a property
  key. Every stored entry has both fields, so the test on
  \<^verbatim>\<open>Object.keys(_currPosTip).length\<close> never returns early. The \<^verbatim>\<open>reduce\<close> copies into
  a fresh object every key \<open>curr\<close> that is not \<^verbatim>\<open>=== this._handHolder\<close>; \<open>curr\<close> ranges
  over the keys of \<open>prevPos\<close>, so its lookup there always finds a value.
\<close>

definition withoutKey :: "string option \<Rightarrow> HandHoldersPositions \<Rightarrow> HandHoldersPositions" where
  "withoutKey holder prevPos =
     foldl (\<lambda>acc curr.
              if Some curr = holder then acc
              else (case map_of prevPos curr of
                      Some v \<Rightarrow> AList.update curr v acc
                    | None \<Rightarrow> acc))
           [] (map fst prevPos)"

definition resetHandHolderPosition :: "StepState \<Rightarrow> StepState" where
  "resetHandHolderPosition st =
     (case prevHandHolderPosition (store st) of
        None \<Rightarrow> st
      | Some prevPos \<Rightarrow>
          if map fst prevPos = [] then st
          else (case map_of prevPos (propertyKey (handHolder (directive st))) of
                  None \<Rightarrow> st
                | Some currPosTip \<Rightarrow>
                    (let d = directive st;
                         d' = (if handHolderStep d = Some (step currPosTip)
                               then d\<lparr>tipPosition := position currPosTip\<rparr> else d);
                         newPos = withoutKey (handHolder d) prevPos
                     in st\<lparr>directive := d', store := resetHandHoldersPos newPos (store st)\<rparr>)))"

definition setLastStep :: "StepState \<Rightarrow> StepState" where
  "setLastStep st =
     (if isLastStep (directive st)
      then st\<lparr>store :=
                setAllSteps (case handHolderStep (directive st) of
                               Some n \<Rightarrow> Num (n + 1)
                             | None \<Rightarrow> NaN)
                            (store st)\<rparr>
      else st)"

text \<open>
  The input setters of \<^verbatim>\<open>HandHolderHookDirective\<close> for the step and the last-step flag,
  given the values \<^verbatim>\<open>coerceNumberProperty\<close> and \<^verbatim>\<open>coerceBooleanProperty\<close> return. Only
  the last-step setter calls \<open>setLastStep\<close>.
\<close>

definition handHolderHookStep :: "int \<Rightarrow> StepState \<Rightarrow> StepState" where
  "handHolderHookStep n st = st\<lparr>directive := (directive st)\<lparr>handHolderStep := Some n\<rparr>\<rparr>"

definition handHolderHookLastStep :: "bool \<Rightarrow> StepState \<Rightarrow> StepState" where
  "handHolderHookLastStep val st =
     setLastStep (st\<lparr>directive := (directive st)\<lparr>isLastStep := val\<rparr>\<rparr>)"

section \<open>Take-the-tour store and its toggle stream (\<^verbatim>\<open>TakeTheTourStore\<close>)\<close>

record TakeTheTourStore =
  enableTourBtn :: "(string \<times> bool) list"
  toggleTourBtnValue :: bool

definition ENABLED_TOUR_BTN_INITIALS :: "(string \<times> bool) list" where
  "ENABLED_TOUR_BTN_INITIALS = [(''HomePage'', True)]"

definition newTakeTheTourStore :: TakeTheTourStore where
  "newTakeTheTourStore =
     \<lparr>enableTourBtn = ENABLED_TOUR_BTN_INITIALS, toggleTourBtnValue = False\<rparr>"

text \<open>\<^verbatim>\<open>_alwaysEnabledIn\<close> is the unanchored pattern \<^verbatim>\<open>/(HomePage)/\<close>.\<close>

definition enableTourBtnIfNeeded :: "bool \<Rightarrow> TakeTheTourStore \<Rightarrow> TakeTheTourStore" where
  "enableTourBtnIfNeeded published t =
     (let oldState = enableTourBtn t;
          newState =
            foldl (\<lambda>acc curr.
                     if strIncludes curr ''HomePage''
                     then (case map_of oldState curr of
                             Some v \<Rightarrow> AList.update curr v acc
                           | None \<Rightarrow> acc)
                     else AList.update curr published acc)
                  [] (map fst oldState)
      in t\<lparr>enableTourBtn := newState\<rparr>)"

definition customTourBtnToggle :: "string \<Rightarrow> bool \<Rightarrow> TakeTheTourStore \<Rightarrow> TakeTheTourStore" where
  "customTourBtnToggle tourPage enable t =
     t\<lparr>enableTourBtn := AList.update tourPage enable (enableTourBtn t)\<rparr>"

definition toggleTourBtn :: "TakeTheTourStore \<Rightarrow> TakeTheTourStore" where
  "toggleTourBtn t =
     (let t1 = enableTourBtnIfNeeded True t
      in t1\<lparr>toggleTourBtnValue := \<not> toggleTourBtnValue t1\<rparr>)"

text \<open>What the resize observer emits: the viewport's width and height.\<close>

record ViewportSize =
  obsWidth :: real
  obsHeight :: real

text \<open>
  One subscription to \<^verbatim>\<open>toggleTourBtn$\<close>. The operators of the pipe keep two values:
  \<^verbatim>\<open>withLatestFrom\<close> the latest value of \<^verbatim>\<open>observe$\<close> (none before the first one),
  \<^verbatim>\<open>distinctUntilChanged\<close> the last value it let through.
\<close>

record ToggleTourBtnSubscription =
  latestObserved :: "ViewportSize option"
  lastPassed :: "bool option"

definition onObserveNext :: "ViewportSize \<Rightarrow> ToggleTourBtnSubscription \<Rightarrow> ToggleTourBtnSubscription" where
  "onObserveNext sz sub = sub\<lparr>latestObserved := Some sz\<rparr>"

text \<open>
  A value of \<^verbatim>\<open>_toggleTourBtn\<close> going through \<^verbatim>\<open>withLatestFrom\<close>, \<^verbatim>\<open>filter\<close>, \<^verbatim>\<open>map\<close>
  and \<^verbatim>\<open>distinctUntilChanged\<close>; the second component is what reaches the subscriber.
\<close>

definition onToggleNext ::
  "bool \<Rightarrow> ToggleTourBtnSubscription \<Rightarrow> ToggleTourBtnSubscription \<times> bool option" where
  "onToggleNext v sub =
     (case latestObserved sub of
        None \<Rightarrow> (sub, None)
      | Some sz \<Rightarrow>
          if obsWidth sz \<ge> 1200
          then (if lastPassed sub = Some v then (sub, None)
                else (sub\<lparr>lastPassed := Some v\<rparr>, Some v))
          else (sub, None))"

record TourSystem =
  tour :: TakeTheTourStore
  observed :: ViewportSize
  subscription :: ToggleTourBtnSubscription

text \<open>
  Subscribing: \<^verbatim>\<open>withLatestFrom\<close> subscribes to \<^verbatim>\<open>observe$\<close> first, and both sources are
  \<^verbatim>\<open>BehaviorSubject\<close>s, which hand their current value to a new subscriber at once.
\<close>

definition subscribeToggleTourBtn ::
  "TakeTheTourStore \<Rightarrow> ViewportSize \<Rightarrow> TourSystem \<times> bool option" where
  "subscribeToggleTourBtn t sz =
     (let sub1 = onObserveNext sz \<lparr>latestObserved = None, lastPassed = None\<rparr>
      in case onToggleNext (toggleTourBtnValue t) sub1 of
           (sub2, out) \<Rightarrow> (\<lparr>tour = t, observed = sz, subscription = sub2\<rparr>, out))"

text \<open>
  The two things that happen afterwards: the resize observer's callback
  (\<^verbatim>\<open>_observe.next\<close>) and a call of \<^verbatim>\<open>toggleTourBtn()\<close>.
\<close>

datatype TourEvent = Resize ViewportSize | ToggleTourBtn

fun tourStep :: "TourEvent \<Rightarrow> TourSystem \<Rightarrow> TourSystem \<times> bool option" where
  "tourStep (Resize sz) sys =
     (sys\<lparr>observed := sz, subscription := onObserveNext sz (subscription sys)\<rparr>, None)"
| "tourStep ToggleTourBtn sys =
     (let t = toggleTourBtn (tour sys)
      in case onToggleNext (toggleTourBtnValue t) (subscription sys) of
           (sub, out) \<Rightarrow> (sys\<lparr>tour := t, subscription := sub\<rparr>, out))"

fun tourRun :: "TourSystem \<Rightarrow> TourEvent list \<Rightarrow> TourSystem" where
  "tourRun sys [] = sys"
| "tourRun sys (ev # evs) = tourRun (fst (tourStep ev sys)) evs"

text \<open>
  The most recently observed viewport size after a history of events that began with the
  size \<open>sz\<close>.
\<close>

fun latestSize :: "ViewportSize \<Rightarrow> TourEvent list \<Rightarrow> ViewportSize" where
  "latestSize sz [] = sz"
| "latestSize sz (Resize sz' # evs) = latestSize sz' evs"
| "latestSize sz (ToggleTourBtn # evs) = latestSize sz evs"

section \<open>Scroll-end detector (\<^verbatim>\<open>onScrollStop\<close>)\<close>

text \<open>
  Time is in whole milliseconds. The browser's timers are a list of pending timeouts (id
  and due time); a timeout's callback runs when the clock reaches its due time, which is
  the earliest moment a browser may run it. \<open>throttleBy\<close> and \<open>timeoutId\<close> are the
  variables of the closure (\<open>None\<close> is \<^verbatim>\<open>undefined\<close>), \<open>scrollEnds\<close> the times at which
  \<^verbatim>\<open>_observe.next(null)\<close> reached the subscribers.
\<close>

record ScrollStop =
  clock :: nat
  throttleBy :: nat
  timeoutId :: "nat option"
  nextTimeoutId :: nat
  pendingTimeouts :: "(nat \<times> nat) list"
  listening :: bool
  completed :: bool
  scrollEnds :: "nat list"

text \<open>The parameter's default: \<^verbatim>\<open>throttleBy: number = 300\<close>.\<close>

definition throttleByOr300 :: "nat option \<Rightarrow> nat" where
  "throttleByOr300 arg = (case arg of None \<Rightarrow> 300 | Some d \<Rightarrow> d)"

text \<open>\<open>onScrollStop\<close> called at time \<open>t0\<close>: the listener is attached, no timeout is set.\<close>

definition onScrollStop :: "nat \<Rightarrow> nat option \<Rightarrow> ScrollStop" where
  "onScrollStop t0 arg =
     \<lparr>clock = t0, throttleBy = throttleByOr300 arg, timeoutId = None, nextTimeoutId = 1,
      pendingTimeouts = [], listening = True, completed = False, scrollEnds = []\<rparr>"

definition setTimeout :: "nat \<Rightarrow> ScrollStop \<Rightarrow> nat \<times> ScrollStop" where
  "setTimeout delay st =
     (nextTimeoutId st,
      st\<lparr>pendingTimeouts := pendingTimeouts st @ [(nextTimeoutId st, clock st + delay)],
         nextTimeoutId := nextTimeoutId st + 1\<rparr>)"

definition clearTimeout :: "nat \<Rightarrow> ScrollStop \<Rightarrow> ScrollStop" where
  "clearTimeout i st = st\<lparr>pendingTimeouts := filter (\<lambda>p. fst p \<noteq> i) (pendingTimeouts st)\<rparr>"

text \<open>The \<^verbatim>\<open>scroll\<close> listener; a timeout id is truthy unless it is \<open>0\<close>.\<close>

definition scrollListener :: "ScrollStop \<Rightarrow> ScrollStop" where
  "scrollListener st =
     (let st1 = (case timeoutId st of
                   None \<Rightarrow> st
                 | Some i \<Rightarrow> if i \<noteq> 0 then clearTimeout i st else st)
      in case setTimeout (throttleBy st1) st1 of
           (i, st2) \<Rightarrow> st2\<lparr>timeoutId := Some i\<rparr>)"

text \<open>The timeout's callback: \<^verbatim>\<open>_observe.next(null)\<close>, ignored by a completed subject.\<close>

definition observeNext :: "ScrollStop \<Rightarrow> ScrollStop" where
  "observeNext st =
     (if completed st then st else st\<lparr>scrollEnds := scrollEnds st @ [clock st]\<rparr>)"

text \<open>Time passing up to \<open>t\<close>: the timeouts due by then run, earliest first.\<close>

fun fireDue :: "nat \<Rightarrow> (nat \<times> nat) list \<Rightarrow> ScrollStop \<Rightarrow> ScrollStop" where
  "fireDue t [] st = st"
| "fireDue t ((i, due) # rest) st =
     (if due \<le> t
      then fireDue t rest
             (observeNext
                (st\<lparr>clock := max (clock st) due,
                    pendingTimeouts := filter (\<lambda>p. fst p \<noteq> i) (pendingTimeouts st)\<rparr>))
      else fireDue t rest st)"

definition advance :: "nat \<Rightarrow> ScrollStop \<Rightarrow> ScrollStop" where
  "advance t st =
     (let st1 = fireDue t (sort_key snd (pendingTimeouts st)) st
      in st1\<lparr>clock := max (clock st1) t\<rparr>)"

text \<open>A \<^verbatim>\<open>scroll\<close> event dispatched on the element at time \<open>t\<close>.\<close>

definition scrollEvent :: "nat \<Rightarrow> ScrollStop \<Rightarrow> ScrollStop" where
  "scrollEvent t st =
     (let st1 = advance t st
      in if listening st1 then scrollListener st1 else st1)"

fun scrollEvents :: "nat list \<Rightarrow> ScrollStop \<Rightarrow> ScrollStop" where
  "scrollEvents [] st = st"
| "scrollEvents (t # ts) st = scrollEvents ts (scrollEvent t st)"

definition cleanup :: "ScrollStop \<Rightarrow> ScrollStop" where
  "cleanup st =
     (let st1 = st\<lparr>completed := True\<rparr>;
          st2 = (case timeoutId st1 of None \<Rightarrow> st1 | Some i \<Rightarrow> clearTimeout i st1)
      in st2\<lparr>listening := False\<rparr>)"

text \<open>
  A burst: scroll times in order, each less than the delay \<open>d\<close> after the one before.
\<close>

fun burst :: "nat \<Rightarrow> nat list \<Rightarrow> bool" where
  "burst d [] = True"
| "burst d [t] = True"
| "burst d (t # u # ts) = (t \<le> u \<and> u < t + d \<and> burst d (u # ts))"

section \<open>Properties of the position resolver\<close>

lemma invalid_position_dev:
  "tp \<notin> set OverlayTipPositions \<Longrightarrow>
     getOrigin False dir tp = Inl InvalidTutorialTipPosition
     \<and> getOverlayPosition False dir tp = Inl InvalidTutorialTipPosition"
  by (simp add: OverlayTipPositions_def getOrigin_def getOverlayPosition_def
      originPosition_of_def overlayPosition_of_def)

lemma invalid_position_production:
  "tp \<notin> set OverlayTipPositions \<Longrightarrow>
     getOrigin True dir tp = Inl TypeError \<and> getOverlayPosition True dir tp = Inl TypeError"
  by (simp add: OverlayTipPositions_def getOrigin_def getOverlayPosition_def
      originPosition_of_def overlayPosition_of_def)

text \<open>
  C1. For each of the six valid sides, every text direction and either build, both
  \<open>getOrigin\<close> and \<open>getOverlayPosition\<close> return a primary pair and a fallback pair. For
  \<^verbatim>\<open>above\<close> and \<^verbatim>\<open>below\<close> the fallback keeps the horizontal component and has the other
  one of the vertical corners top and bottom; for the four horizontal sides it keeps the
  vertical component and has the other one of the horizontal corners start and end.
\<close>

theorem resolver_fallback_inverse:
  assumes "tp \<in> set OverlayTipPositions"
  shows "\<exists>om ofb vm vfb.
           getOrigin production dir tp = Inr \<lparr>main = om, fallback = ofb\<rparr>
         \<and> getOverlayPosition production dir tp = Inr \<lparr>main = vm, fallback = vfb\<rparr>
         \<and> (if tp = ''above'' \<or> tp = ''below''
            then originX ofb = originX om \<and> {originY om, originY ofb} = {YTop, YBottom}
               \<and> overlayX vfb = overlayX vm \<and> {overlayY vm, overlayY vfb} = {YTop, YBottom}
            else originY ofb = originY om \<and> {originX om, originX ofb} = {XStart, XEnd}
               \<and> overlayY vfb = overlayY vm \<and> {overlayX vm, overlayX vfb} = {XStart, XEnd})"
  using assms
  by (auto simp add: OverlayTipPositions_def getOrigin_def getOverlayPosition_def
      originPosition_of_def overlayPosition_of_def invertPosition_def)

theorem resolver_fallback_inverse_witness:
  "''left'' \<in> set OverlayTipPositions
   \<and> getOrigin False (Some Rtl) ''left''
       = Inr \<lparr>main = \<lparr>originX = XEnd, originY = YCenter\<rparr>,
              fallback = \<lparr>originX = XStart, originY = YCenter\<rparr>\<rparr>
   \<and> getOverlayPosition False (Some Rtl) ''left''
       = Inr \<lparr>main = \<lparr>overlayX = XStart, overlayY = YCenter\<rparr>,
              fallback = \<lparr>overlayX = XEnd, overlayY = YCenter\<rparr>\<rparr>"
  using resolver_fallback_inverse [of "''left''" False "Some Rtl"]
  by (simp add: OverlayTipPositions_def getOrigin_def getOverlayPosition_def
      originPosition_of_def overlayPosition_of_def invertPosition_def isLtr_def)

text \<open>
  C2. In a production build a side outside the six literals is not ignored: no branch
  assigns \<open>originPosition\<close>, and reading \<^verbatim>\<open>originX\<close> from it raises a \<^verbatim>\<open>TypeError\<close>, in
  \<open>getOrigin\<close> and in \<open>getOverlayPosition\<close> alike. Evaluated at the side \<^verbatim>\<open>top\<close>.
\<close>

theorem production_invalid_position_raises_TypeError:
  "getOrigin True (Some Ltr) ''top'' = Inl TypeError
   \<and> getOverlayPosition True (Some Ltr) ''top'' = Inl TypeError"
  by (simp add: getOrigin_def getOverlayPosition_def originPosition_of_def
      overlayPosition_of_def)

section \<open>Properties of the step heuristic\<close>

text \<open>
  C4. The vertical fit test holds exactly when the element's height is strictly less than
  the viewport height minus 532.
\<close>

theorem isTipFitVertically_iff:
  "isTipFitVertically viewportHeight elHeight \<longleftrightarrow> elHeight < viewportHeight - 532"
  by (simp add: isTipFitVertically_def HAND_HOLDER_STEP_MAX_HEIGHT_def)

theorem isTipFitVertically_iff_witness:
  "isTipFitVertically 800 267 \<and> \<not> isTipFitVertically 800 268"
  using isTipFitVertically_iff [of 800 267] isTipFitVertically_iff [of 800 268]
  by simp

lemma scrollVerticallyBy_fields:
  "store (scrollVerticallyBy a st) = store st"
  "directive (scrollVerticallyBy a st) = directive st"
  "scrollRequests (scrollVerticallyBy a st) = scrollRequests st @ [a]"
  by (simp_all add: scrollVerticallyBy_def)

lemma scrollToHookedElement_fields:
  "store (scrollToHookedElement l opt off st) = store st"
  "directive (scrollToHookedElement l opt off st) = directive st"
  "scrollRequests (scrollToHookedElement l opt off st) =
     scrollRequests st @
       [case opt of
          Fullway \<Rightarrow> erTop (getElemRect l) + off - getTopViewportOffset l
        | Halfway \<Rightarrow> erTop (getElemRect l) + off - erHeight (getElemRect l) / (3 / 2)]"
  by (simp_all add: scrollToHookedElement_def scrollVerticallyBy_def Let_def
      split: ScrollOption.splits)

lemma makePosition_fields:
  "tipPosition (directive (makePosition pos st)) = pos"
  "scrollRequests (makePosition pos st) = scrollRequests st"
  by (simp_all add: makePosition_def Let_def)

lemma anyPosition_not_above:
  "anyPosition [''left'', ''before'', ''right'', ''after''] st \<Longrightarrow>
     tipPosition (directive st) \<noteq> ''above''"
  by (auto simp add: anyPosition_def)

lemma anyPosition_not_right:
  "anyPosition [''left'', ''before''] st \<Longrightarrow> tipPosition (directive st) \<noteq> ''right''"
  by (auto simp add: anyPosition_def)

lemma anyPosition_not_left:
  "anyPosition [''right'', ''after''] st \<Longrightarrow> tipPosition (directive st) \<noteq> ''left''"
  by (auto simp add: anyPosition_def)

lemma store_positionHandHolderStep_cases:
  "store (positionHandHolderStep l st) = store st
   \<or> (\<exists>pos. store (positionHandHolderStep l st) = store (makePosition pos st))"
  by (auto simp add: positionHandHolderStep_def Let_def scrollVerticallyBy_fields
      scrollToHookedElement_fields)

text \<open>
  C3, as stated, fails: with the side \<^verbatim>\<open>left\<close> on an element 600 wide in a viewport 1000
  wide, 600 below the top of the viewport, one invocation changes the side to \<^verbatim>\<open>above\<close>
  and asks the container to scroll to 500.
\<close>

theorem positionHandHolderStep_changes_side_and_scrolls:
  "tipPosition (directive (positionHandHolderStep
      \<lparr>viewportRect = \<lparr>viewWidth = 1000, viewHeight = 800\<rparr>,
       boundingClientRect = \<lparr>rectX = 0, rectY = 600, rectWidth = 600, rectHeight = 150\<rparr>,
       mainScrollTop = 0, mainScrollLeft = 0\<rparr>
      \<lparr>directive = \<lparr>tipPosition = ''left'', handHolder = Some ''learnAngular'',
                    handHolderStep = Some 0, isLastStep = False, appearsInGroup = None\<rparr>,
       store = newAppWalkthroughStore, scrollRequests = []\<rparr>)) = ''above''
   \<and> scrollRequests (positionHandHolderStep
      \<lparr>viewportRect = \<lparr>viewWidth = 1000, viewHeight = 800\<rparr>,
       boundingClientRect = \<lparr>rectX = 0, rectY = 600, rectWidth = 600, rectHeight = 150\<rparr>,
       mainScrollTop = 0, mainScrollLeft = 0\<rparr>
      \<lparr>directive = \<lparr>tipPosition = ''left'', handHolder = Some ''learnAngular'',
                    handHolderStep = Some 0, isLastStep = False, appearsInGroup = None\<rparr>,
       store = newAppWalkthroughStore, scrollRequests = []\<rparr>) = [500]"
  by (simp add: positionHandHolderStep_def Let_def HAND_HOLDER_STEP_MAX_HEIGHT_def
      positionIs_def anyPosition_def makePosition_def scrollToHookedElement_def
      scrollVerticallyBy_def getElemRect_def rectTop_def Math_round_def)

text \<open>
  C3, amended. Every invocation makes at most one scroll request and changes the side
  at most once, and its outcome is exactly one of four: the side is kept and nothing is
  scrolled; the side goes from \<^verbatim>\<open>above\<close> to \<^verbatim>\<open>below\<close> and nothing is scrolled; the side
  is kept and one scroll is requested; or the side is changed (a horizontal side to
  \<^verbatim>\<open>above\<close>, \<^verbatim>\<open>left\<close>/\<^verbatim>\<open>before\<close> to \<^verbatim>\<open>right\<close>, \<^verbatim>\<open>right\<close>/\<^verbatim>\<open>after\<close> to \<^verbatim>\<open>left\<close>) and one
  scroll is requested in the same invocation.
\<close>

theorem positionHandHolderStep_outcome:
  "(tipPosition (directive (positionHandHolderStep l st)) = tipPosition (directive st)
      \<and> scrollRequests (positionHandHolderStep l st) = scrollRequests st)
   \<or> (tipPosition (directive st) = ''above''
      \<and> tipPosition (directive (positionHandHolderStep l st)) = ''below''
      \<and> scrollRequests (positionHandHolderStep l st) = scrollRequests st)
   \<or> (tipPosition (directive (positionHandHolderStep l st)) = tipPosition (directive st)
      \<and> (\<exists>top. scrollRequests (positionHandHolderStep l st) = scrollRequests st @ [top]))
   \<or> (tipPosition (directive (positionHandHolderStep l st)) \<noteq> tipPosition (directive st)
      \<and> (anyPosition [''left'', ''before'', ''right'', ''after''] st
            \<and> tipPosition (directive (positionHandHolderStep l st)) = ''above''
          \<or> anyPosition [''left'', ''before''] st
            \<and> tipPosition (directive (positionHandHolderStep l st)) = ''right''
          \<or> anyPosition [''right'', ''after''] st
            \<and> tipPosition (directive (positionHandHolderStep l st)) = ''left'')
      \<and> (\<exists>top. scrollRequests (positionHandHolderStep l st) = scrollRequests st @ [top]))"
  using anyPosition_not_above [of st] anyPosition_not_right [of st] anyPosition_not_left [of st]
  by (simp add: positionHandHolderStep_def Let_def positionIs_def scrollVerticallyBy_fields
      scrollToHookedElement_fields makePosition_fields)

theorem positionHandHolderStep_outcome_witness:
  "tipPosition (directive (positionHandHolderStep
      \<lparr>viewportRect = \<lparr>viewWidth = 1400, viewHeight = 900\<rparr>,
       boundingClientRect = \<lparr>rectX = 100, rectY = 200, rectWidth = 300, rectHeight = 100\<rparr>,
       mainScrollTop = 40, mainScrollLeft = 0\<rparr>
      \<lparr>directive = \<lparr>tipPosition = ''before'', handHolder = Some ''angularBlog'',
                    handHolderStep = Some 3, isLastStep = False, appearsInGroup = None\<rparr>,
       store = newAppWalkthroughStore, scrollRequests = []\<rparr>)) = ''right''
   \<and> scrollRequests (positionHandHolderStep
      \<lparr>viewportRect = \<lparr>viewWidth = 1400, viewHeight = 900\<rparr>,
       boundingClientRect = \<lparr>rectX = 100, rectY = 200, rectWidth = 300, rectHeight = 100\<rparr>,
       mainScrollTop = 40, mainScrollLeft = 0\<rparr>
      \<lparr>directive = \<lparr>tipPosition = ''before'', handHolder = Some ''angularBlog'',
                    handHolderStep = Some 3, isLastStep = False, appearsInGroup = None\<rparr>,
       store = newAppWalkthroughStore, scrollRequests = []\<rparr>) = [- 30]"
  using positionHandHolderStep_outcome
    [of "\<lparr>viewportRect = \<lparr>viewWidth = 1400, viewHeight = 900\<rparr>,
       boundingClientRect = \<lparr>rectX = 100, rectY = 200, rectWidth = 300, rectHeight = 100\<rparr>,
       mainScrollTop = 40, mainScrollLeft = 0\<rparr>"
      "\<lparr>directive = \<lparr>tipPosition = ''before'', handHolder = Some ''angularBlog'',
                    handHolderStep = Some 3, isLastStep = False, appearsInGroup = None\<rparr>,
       store = newAppWalkthroughStore, scrollRequests = []\<rparr>"]
  by (simp add: positionHandHolderStep_def Let_def HAND_HOLDER_STEP_MAX_HEIGHT_def
      HAND_HOLDER_STEP_MAX_WIDTH_def positionIs_def anyPosition_def makePosition_def
      scrollToHookedElement_def scrollVerticallyBy_def getElemRect_def rectTop_def
      Math_round_def getTopViewportOffset_def)

section \<open>Properties of the walkthrough store\<close>



lemma store_makePosition_currentStep:
  "currentStep (store (makePosition pos st)) = currentStep (store st)"
  by (simp add: makePosition_def Let_def setPrevHandHolderStepPos_def split: option.splits)




text \<open>
  C6. \<open>incrementStep\<close> takes the current step from \<open>n\<close> to \<open>n + 1\<close>; \<open>killTutorial\<close>
  sets it to \<open>0\<close>; every other method of the store, and every operation of the
  directive on the store, leaves it as it was.
\<close>

theorem currentStep_changes:
  "currentStep (incrementStep s) = currentStep s + 1
   \<and> currentStep (killTutorial s) = 0
   \<and> currentStep (call c s) =
       (case c of IncrementStep \<Rightarrow> currentStep s + 1 | KillTutorial \<Rightarrow> 0 | _ \<Rightarrow> currentStep s)
   \<and> currentStep (store (makePosition pos st)) = currentStep (store st)
   \<and> currentStep (store (positionHandHolderStep l st)) = currentStep (store st)
   \<and> currentStep (store (resetHandHolderPosition st)) = currentStep (store st)
   \<and> currentStep (store (setLastStep st)) = currentStep (store st)"
proof -
  have 1: "currentStep (incrementStep s) = currentStep s + 1"
    by (simp add: incrementStep_def)
  have 2: "currentStep (killTutorial s) = 0"
    by (simp add: killTutorial_def)
  have 3: "currentStep (call c s) =
       (case c of IncrementStep \<Rightarrow> currentStep s + 1 | KillTutorial \<Rightarrow> 0 | _ \<Rightarrow> currentStep s)"
    by (cases c)
      (simp_all add: incrementStep_def killTutorial_def setHandHolderTooltipPage_def
        setHandHolderTooltips_def setCurrentGroup_def setAllSteps_def
        setPrevHandHolderStepPos_def resetHandHoldersPos_def ngOnDestroy_def
        split: option.splits)
  have 4: "currentStep (store (makePosition pos st)) = currentStep (store st)"
    by (rule store_makePosition_currentStep)
  have 5: "currentStep (store (positionHandHolderStep l st)) = currentStep (store st)"
    using store_positionHandHolderStep_cases [of l st]
    by (auto simp add: store_makePosition_currentStep)
  have 6: "currentStep (store (resetHandHolderPosition st)) = currentStep (store st)"
    by (simp add: resetHandHolderPosition_def Let_def resetHandHoldersPos_def
        split: option.splits)
  have 7: "currentStep (store (setLastStep st)) = currentStep (store st)"
    by (simp add: setLastStep_def setAllSteps_def)
  from 1 2 3 4 5 6 7 show ?thesis by blast
qed

theorem currentStep_changes_witness:
  "currentStep (incrementStep (incrementStep newAppWalkthroughStore)) = 2
   \<and> currentStep (killTutorial (incrementStep newAppWalkthroughStore)) = 0
   \<and> currentStep (call (SetAllSteps (Num 5)) (incrementStep newAppWalkthroughStore)) = 1"
  using currentStep_changes [of "incrementStep newAppWalkthroughStore" "SetAllSteps (Num 5)"]
    currentStep_changes [of newAppWalkthroughStore]
  by (simp add: newAppWalkthroughStore_def)

text \<open>
  What \<open>setLastStep\<close> does by itself: with the flag set and the ordinal \<open>n\<close> already in
  place the total becomes \<open>n + 1\<close>, with the flag set and no ordinal yet it becomes
  \<^verbatim>\<open>NaN\<close>, and without the flag nothing changes.
\<close>

lemma setLastStep_step_set:
  "isLastStep (directive st) \<Longrightarrow> handHolderStep (directive st) = Some n \<Longrightarrow>
     allSteps (store (setLastStep st)) = Num (n + 1)"
  by (simp add: setLastStep_def setAllSteps_def)

lemma setLastStep_step_unset:
  "isLastStep (directive st) \<Longrightarrow> handHolderStep (directive st) = None \<Longrightarrow>
     allSteps (store (setLastStep st)) = NaN"
  by (simp add: setLastStep_def setAllSteps_def)

lemma setLastStep_not_last:
  "\<not> isLastStep (directive st) \<Longrightarrow> setLastStep st = st"
  by (simp add: setLastStep_def)

lemma step_then_lastStep:
  "allSteps (store (handHolderHookLastStep True (handHolderHookStep n st))) = Num (n + 1)"
  by (simp add: handHolderHookLastStep_def handHolderHookStep_def setLastStep_def
      setAllSteps_def)

text \<open>
  C7. The total is one plus the ordinal of the last step only if the step input is set
  before the last-step input. On a new directive that gets the last-step flag first and
  the ordinal 4 after it, the directive is the last step with ordinal 4, and the total
  step count is \<^verbatim>\<open>NaN\<close>, not 5: \<open>setLastStep\<close> ran while the ordinal was still unset, and
  the step setter does not run it again.
\<close>

theorem lastStep_before_step_leaves_NaN:
  "isLastStep (directive (handHolderHookStep 4 (handHolderHookLastStep True
      \<lparr>directive = newHandHolderBaseDirective, store = newAppWalkthroughStore,
       scrollRequests = []\<rparr>)))
   \<and> handHolderStep (directive (handHolderHookStep 4 (handHolderHookLastStep True
      \<lparr>directive = newHandHolderBaseDirective, store = newAppWalkthroughStore,
       scrollRequests = []\<rparr>))) = Some 4
   \<and> allSteps (store (handHolderHookStep 4 (handHolderHookLastStep True
      \<lparr>directive = newHandHolderBaseDirective, store = newAppWalkthroughStore,
       scrollRequests = []\<rparr>))) = NaN"
  by (simp add: handHolderHookLastStep_def handHolderHookStep_def setLastStep_def
      setAllSteps_def newHandHolderBaseDirective_def)

text \<open>
  C10. \<open>setPrevHandHolderStepPos\<close> returns the store unchanged when its step argument is
  not the store's current step. When it is, the entry of the given key becomes the given
  position and step, the entry of every other key is what it was, and no other field of
  the store changes.
\<close>

theorem setPrevHandHolderStepPos_frame:
  "(stp \<noteq> Some (currentStep s) \<longrightarrow> setPrevHandHolderStepPos pos stp key s = s)
   \<and> (stp = Some (currentStep s) \<longrightarrow>
        prevPosOf (setPrevHandHolderStepPos pos stp key s) key
          = Some \<lparr>position = pos, step = currentStep s\<rparr>
        \<and> (\<forall>k. k \<noteq> key \<longrightarrow>
              prevPosOf (setPrevHandHolderStepPos pos stp key s) k = prevPosOf s k)
        \<and> (setPrevHandHolderStepPos pos stp key s)
             \<lparr>prevHandHolderPosition := prevHandHolderPosition s\<rparr> = s)"
  by (cases stp)
    (auto simp add: setPrevHandHolderStepPos_def prevPosOf_def spread_def update_conv')

theorem setPrevHandHolderStepPos_frame_witness:
  "setPrevHandHolderStepPos ''left'' (Some 2) ''angularBlog'' newAppWalkthroughStore
     = newAppWalkthroughStore
   \<and> prevHandHolderPosition
       (setPrevHandHolderStepPos ''below'' (Some 0) ''angularBlog''
          (setPrevHandHolderStepPos ''left'' (Some 0) ''learnAngular'' newAppWalkthroughStore))
     = Some [(''learnAngular'', \<lparr>position = ''left'', step = 0\<rparr>),
             (''angularBlog'', \<lparr>position = ''below'', step = 0\<rparr>)]"
  using setPrevHandHolderStepPos_frame
      [of "Some 2" newAppWalkthroughStore "''left''" "''angularBlog''"]
    setPrevHandHolderStepPos_frame
      [of "Some 0"
          "setPrevHandHolderStepPos ''left'' (Some 0) ''learnAngular'' newAppWalkthroughStore"
          "''below''" "''angularBlog''"]
  by (simp add: setPrevHandHolderStepPos_def newAppWalkthroughStore_def spread_def)

section \<open>The take-the-tour toggle stream\<close>

lemma latestObserved_tourStep:
  "latestObserved (subscription sys) = Some sz \<Longrightarrow>
     latestObserved (subscription (fst (tourStep ev sys))) = Some (latestSize sz [ev])"
  by (cases ev)
    (auto simp add: onObserveNext_def onToggleNext_def Let_def split: prod.splits if_splits)

lemma latestObserved_tourRun:
  "latestObserved (subscription sys) = Some sz \<Longrightarrow>
     latestObserved (subscription (tourRun sys evs)) = Some (latestSize sz evs)"
proof (induction evs arbitrary: sys sz)
  case Nil
  then show ?case by simp
next
  case (Cons ev evs)
  from latestObserved_tourStep [OF Cons.prems, of ev]
  have "latestObserved (subscription (fst (tourStep ev sys))) = Some (latestSize sz [ev])" .
  from Cons.IH [OF this] show ?case by (cases ev) simp_all
qed

lemma latestObserved_subscribe:
  "latestObserved (subscription (fst (subscribeToggleTourBtn t sz))) = Some sz"
  by (auto simp add: subscribeToggleTourBtn_def onObserveNext_def onToggleNext_def Let_def
      split: prod.splits if_splits)

lemma tourStep_emits:
  "snd (tourStep ev sys) = Some b \<Longrightarrow>
     ev = ToggleTourBtn
     \<and> (\<exists>sz. latestObserved (subscription sys) = Some sz \<and> 1200 \<le> obsWidth sz)"
  by (cases ev)
    (auto simp add: onToggleNext_def Let_def split: prod.splits if_splits option.splits)

text \<open>
  C8. A subscriber of \<^verbatim>\<open>toggleTourBtn$\<close> receives a value only when the latest viewport
  width observed is at least 1200: at subscription this is the width the resize observer
  holds then, and after any history of resizes and toggles a value arrives only on a
  toggle, and only if the most recent width of that history is at least 1200.
\<close>

theorem toggleTourBtn_emits_only_when_wide:
  "(snd (subscribeToggleTourBtn t sz) = Some b \<longrightarrow> 1200 \<le> obsWidth sz)
   \<and> (snd (tourStep ev (tourRun (fst (subscribeToggleTourBtn t sz)) evs)) = Some b \<longrightarrow>
        ev = ToggleTourBtn \<and> 1200 \<le> obsWidth (latestSize sz evs))"
proof -
  have a: "1200 \<le> obsWidth sz" if "snd (subscribeToggleTourBtn t sz) = Some b"
    using that
    by (auto simp add: subscribeToggleTourBtn_def onObserveNext_def onToggleNext_def Let_def
        split: prod.splits if_splits)
  have b: "ev = ToggleTourBtn \<and> 1200 \<le> obsWidth (latestSize sz evs)"
    if "snd (tourStep ev (tourRun (fst (subscribeToggleTourBtn t sz)) evs)) = Some b"
    using tourStep_emits [OF that]
      latestObserved_tourRun [OF latestObserved_subscribe, of t sz evs]
    by auto
  from a b show ?thesis by blast
qed

theorem toggleTourBtn_emits_only_when_wide_witness:
  "snd (tourStep ToggleTourBtn
      (tourRun (fst (subscribeToggleTourBtn newTakeTheTourStore \<lparr>obsWidth = 1300, obsHeight = 800\<rparr>))
         [Resize \<lparr>obsWidth = 1000, obsHeight = 800\<rparr>, Resize \<lparr>obsWidth = 1400, obsHeight = 800\<rparr>]))
     = Some True
   \<and> 1200 \<le> obsWidth (latestSize \<lparr>obsWidth = 1300, obsHeight = 800\<rparr>
         [Resize \<lparr>obsWidth = 1000, obsHeight = 800\<rparr>, Resize \<lparr>obsWidth = 1400, obsHeight = 800\<rparr>])
   \<and> snd (subscribeToggleTourBtn newTakeTheTourStore \<lparr>obsWidth = 1300, obsHeight = 800\<rparr>)
     = Some False
   \<and> snd (tourStep ToggleTourBtn
      (tourRun (fst (subscribeToggleTourBtn newTakeTheTourStore \<lparr>obsWidth = 1300, obsHeight = 800\<rparr>))
         [Resize \<lparr>obsWidth = 1000, obsHeight = 800\<rparr>])) = None"
  using toggleTourBtn_emits_only_when_wide [of newTakeTheTourStore
      "\<lparr>obsWidth = 1300, obsHeight = 800\<rparr>" False ToggleTourBtn
      "[Resize \<lparr>obsWidth = 1000, obsHeight = 800\<rparr>, Resize \<lparr>obsWidth = 1400, obsHeight = 800\<rparr>]"]
    toggleTourBtn_emits_only_when_wide [of newTakeTheTourStore
      "\<lparr>obsWidth = 1300, obsHeight = 800\<rparr>" True ToggleTourBtn
      "[Resize \<lparr>obsWidth = 1000, obsHeight = 800\<rparr>, Resize \<lparr>obsWidth = 1400, obsHeight = 800\<rparr>]"]
  by (simp add: subscribeToggleTourBtn_def onObserveNext_def onToggleNext_def Let_def
      newTakeTheTourStore_def toggleTourBtn_def enableTourBtnIfNeeded_def
      ENABLED_TOUR_BTN_INITIALS_def)

section \<open>The scroll-end detector\<close>

lemma onScrollStop_fields:
  "clock (onScrollStop t0 arg) = t0" "timeoutId (onScrollStop t0 arg) = None"
  "nextTimeoutId (onScrollStop t0 arg) = 1" "pendingTimeouts (onScrollStop t0 arg) = []"
  "listening (onScrollStop t0 arg)" "\<not> completed (onScrollStop t0 arg)"
  "scrollEnds (onScrollStop t0 arg) = []"
  "throttleBy (onScrollStop t0 arg) = throttleByOr300 arg"
  by (simp_all add: onScrollStop_def)

text \<open>
  Time passing over a detector with at most one timeout pending: the timeout runs if it
  is due, and nothing else changes but the clock.
\<close>

lemma advance_idle:
  assumes "pendingTimeouts st = []"
  shows "advance T st = st\<lparr>clock := max (clock st) T\<rparr>"
  using assms by (simp add: advance_def Let_def)

lemma advance_single:
  assumes "pendingTimeouts st = [(i, due)]" "\<not> completed st" "clock st \<le> due"
  shows "advance T st =
           (if due \<le> T
            then st\<lparr>clock := max due T, pendingTimeouts := [],
                    scrollEnds := scrollEnds st @ [due]\<rparr>
            else st\<lparr>clock := max (clock st) T\<rparr>)"
  using assms by (simp add: advance_def Let_def observeNext_def max_def)

text \<open>
  The state of a detector in use: it listens, its subject is not completed, and either
  no timeout is pending or exactly one is, the one \<open>timeoutId\<close> names. A scroll event
  at any time \<open>u\<close> keeps all that, emits nothing beyond what was due by \<open>u\<close>, and leaves
  exactly one timeout, its own, due one delay later.
\<close>

lemma scrollEvent_in_use:
  assumes "listening st" "\<not> completed st" "0 < nextTimeoutId st"
    "pendingTimeouts st = [] \<or>
       (\<exists>i due. pendingTimeouts st = [(i, due)] \<and> timeoutId st = Some i \<and> i \<noteq> 0
                \<and> clock st \<le> due)"
  shows "listening (scrollEvent u st) \<and> \<not> completed (scrollEvent u st)
       \<and> 0 < nextTimeoutId (scrollEvent u st)
       \<and> throttleBy (scrollEvent u st) = throttleBy st
       \<and> clock (scrollEvent u st) = max (clock st) u
       \<and> scrollEnds (scrollEvent u st) = scrollEnds (advance u st)
       \<and> pendingTimeouts (scrollEvent u st)
           = [(nextTimeoutId st, max (clock st) u + throttleBy st)]
       \<and> timeoutId (scrollEvent u st) = Some (nextTimeoutId st)"
proof -
  from assms(4) consider
      (idle) "pendingTimeouts st = []"
    | (armed) i due where "pendingTimeouts st = [(i, due)]" "timeoutId st = Some i"
        "i \<noteq> 0" "clock st \<le> due"
    by blast
  then show ?thesis
  proof cases
    case idle
    then show ?thesis
      using assms(1,2,3)
      by (auto simp add: scrollEvent_def advance_idle scrollListener_def setTimeout_def
          clearTimeout_def Let_def split: option.splits)
  next
    case armed
    then show ?thesis
      using assms(1,2,3)
      by (auto simp add: scrollEvent_def advance_single [OF armed(1) assms(2) armed(4)]
          scrollListener_def setTimeout_def clearTimeout_def Let_def max_def)
  qed
qed

text \<open>Every state a new detector reaches through scroll events is a state in use.\<close>

lemma scrollEvents_in_use:
  assumes "listening st" "\<not> completed st" "0 < nextTimeoutId st"
    "pendingTimeouts st = [] \<or>
       (\<exists>i due. pendingTimeouts st = [(i, due)] \<and> timeoutId st = Some i \<and> i \<noteq> 0
                \<and> clock st \<le> due)"
  shows "listening (scrollEvents hist st) \<and> \<not> completed (scrollEvents hist st)
       \<and> 0 < nextTimeoutId (scrollEvents hist st)
       \<and> throttleBy (scrollEvents hist st) = throttleBy st
       \<and> (pendingTimeouts (scrollEvents hist st) = [] \<or>
           (\<exists>i due. pendingTimeouts (scrollEvents hist st) = [(i, due)]
                    \<and> timeoutId (scrollEvents hist st) = Some i \<and> i \<noteq> 0
                    \<and> clock (scrollEvents hist st) \<le> due))"
  using assms
proof (induction hist arbitrary: st)
  case Nil
  then show ?case by simp
next
  case (Cons u hist)
  note ev = scrollEvent_in_use [OF Cons.prems, of u]
  have "listening (scrollEvents hist (scrollEvent u st))
       \<and> \<not> completed (scrollEvents hist (scrollEvent u st))
       \<and> 0 < nextTimeoutId (scrollEvents hist (scrollEvent u st))
       \<and> throttleBy (scrollEvents hist (scrollEvent u st)) = throttleBy (scrollEvent u st)
       \<and> (pendingTimeouts (scrollEvents hist (scrollEvent u st)) = [] \<or>
           (\<exists>i due. pendingTimeouts (scrollEvents hist (scrollEvent u st)) = [(i, due)]
                    \<and> timeoutId (scrollEvents hist (scrollEvent u st)) = Some i \<and> i \<noteq> 0
                    \<and> clock (scrollEvents hist (scrollEvent u st)) \<le> due))"
    using ev Cons.prems(3) by (intro Cons.IH) auto
  with ev show ?case by simp
qed

text \<open>
  Within a burst each event comes before the pending timeout is due, so nothing is
  emitted and the timeout is replaced.
\<close>

lemma scrollEvents_burst:
  assumes "listening st" "\<not> completed st" "0 < nextTimeoutId st" "clock st = t"
    "pendingTimeouts st = [(i, t + throttleBy st)]" "timeoutId st = Some i" "i \<noteq> 0"
    "burst (throttleBy st) (t # ts)"
  shows "\<not> completed (scrollEvents ts st)
       \<and> scrollEnds (scrollEvents ts st) = scrollEnds st
       \<and> clock (scrollEvents ts st) = last (t # ts)
       \<and> map snd (pendingTimeouts (scrollEvents ts st)) = [last (t # ts) + throttleBy st]"
  using assms
proof (induction ts arbitrary: st t i)
  case Nil
  then show ?case by simp
next
  case (Cons u ts)
  let ?st = "scrollEvent u st"
  from Cons.prems have tu: "t \<le> u" "u < t + throttleBy st" "burst (throttleBy st) (u # ts)"
    by simp_all
  have use: "pendingTimeouts st = [] \<or>
       (\<exists>i due. pendingTimeouts st = [(i, due)] \<and> timeoutId st = Some i \<and> i \<noteq> 0
                \<and> clock st \<le> due)"
    using Cons.prems by simp
  note ev = scrollEvent_in_use [OF Cons.prems(1,2,3) use, of u]
  have m: "max (clock st) u = u" using Cons.prems tu by simp
  have quiet: "scrollEnds (advance u st) = scrollEnds st"
    using advance_single [OF Cons.prems(5) Cons.prems(2), of u] Cons.prems(4) tu by simp
  have nz: "nextTimeoutId st \<noteq> 0" using Cons.prems(3) by simp
  have "\<not> completed (scrollEvents ts ?st)
       \<and> scrollEnds (scrollEvents ts ?st) = scrollEnds ?st
       \<and> clock (scrollEvents ts ?st) = last (u # ts)
       \<and> map snd (pendingTimeouts (scrollEvents ts ?st)) = [last (u # ts) + throttleBy ?st]"
    using ev m tu nz by (intro Cons.IH [where i = "nextTimeoutId st"]) simp_all
  with ev quiet show ?case by simp
qed

text \<open>
  C9. Take a detector after any history of scroll events since \<open>onScrollStop\<close> was
  called, and a burst of further scroll events, each less than the delay after the one
  before. While the burst lasts nothing is emitted beyond what was already due when it
  began; when it ends exactly one timeout is pending, due one delay after the last event
  (each event has cancelled the timeout of the one before and set its own); and
  whatever time \<open>T\<close> the clock then reaches with no further scroll event, the burst has
  added no emission before that due time and exactly one, at the due time, from then
  on. The delay is the \<open>throttleBy\<close> argument, 300 when it is left out.
\<close>

theorem onScrollStop_burst_one_emission:
  assumes "burst (throttleByOr300 arg) (t # ts)"
    and "clock (scrollEvents hist (onScrollStop t0 arg)) \<le> t"
  shows "scrollEnds (scrollEvents (t # ts) (scrollEvents hist (onScrollStop t0 arg)))
           = scrollEnds (advance t (scrollEvents hist (onScrollStop t0 arg)))
       \<and> map snd (pendingTimeouts
                    (scrollEvents (t # ts) (scrollEvents hist (onScrollStop t0 arg))))
           = [last (t # ts) + throttleByOr300 arg]
       \<and> scrollEnds (advance T
                       (scrollEvents (t # ts) (scrollEvents hist (onScrollStop t0 arg))))
           = scrollEnds (advance t (scrollEvents hist (onScrollStop t0 arg)))
             @ (if last (t # ts) + throttleByOr300 arg \<le> T
                then [last (t # ts) + throttleByOr300 arg] else [])
       \<and> throttleByOr300 None = 300 \<and> throttleByOr300 (Some d) = d"
proof -
  let ?d = "throttleByOr300 arg"
  let ?h = "scrollEvents hist (onScrollStop t0 arg)"
  let ?st = "scrollEvent t ?h"
  let ?fin = "scrollEvents (t # ts) ?h"
  have fresh: "pendingTimeouts (onScrollStop t0 arg) = [] \<or>
       (\<exists>i due. pendingTimeouts (onScrollStop t0 arg) = [(i, due)]
                \<and> timeoutId (onScrollStop t0 arg) = Some i \<and> i \<noteq> 0
                \<and> clock (onScrollStop t0 arg) \<le> due)"
    by (simp add: onScrollStop_fields)
  have pos: "0 < nextTimeoutId (onScrollStop t0 arg)"
    by (simp add: onScrollStop_fields)
  note h = scrollEvents_in_use [OF onScrollStop_fields(5) onScrollStop_fields(6) pos fresh,
      of hist]
  from h have h1: "listening ?h" and h2: "\<not> completed ?h" and h3: "0 < nextTimeoutId ?h"
    and h4: "throttleBy ?h = ?d"
    and h5: "pendingTimeouts ?h = [] \<or>
       (\<exists>i due. pendingTimeouts ?h = [(i, due)] \<and> timeoutId ?h = Some i \<and> i \<noteq> 0
                \<and> clock ?h \<le> due)"
    by (simp_all add: onScrollStop_fields)
  note ev = scrollEvent_in_use [OF h1 h2 h3 h5, of t]
  have m: "max (clock ?h) t = t" using assms(2) by simp
  from ev have st: "listening ?st" "\<not> completed ?st" "0 < nextTimeoutId ?st"
    "clock ?st = t" "pendingTimeouts ?st = [(nextTimeoutId ?h, t + throttleBy ?st)]"
    "timeoutId ?st = Some (nextTimeoutId ?h)" "throttleBy ?st = ?d"
    "scrollEnds ?st = scrollEnds (advance t ?h)"
    by (simp_all add: m h4)
  have nz: "nextTimeoutId ?h \<noteq> 0" using h3 by simp
  have bu: "burst (throttleBy ?st) (t # ts)" using assms(1) st(7) by simp
  note b = scrollEvents_burst [OF st(1) st(2) st(3) st(4) st(5) st(6) nz bu]
  have fin: "?fin = scrollEvents ts ?st" by simp
  from b obtain j where j: "pendingTimeouts ?fin = [(j, last (t # ts) + ?d)]"
    unfolding fin st(7) by (cases "pendingTimeouts (scrollEvents ts ?st)") auto
  have nc: "\<not> completed ?fin" unfolding fin using b by simp
  have ends: "scrollEnds ?fin = scrollEnds (advance t ?h)"
    unfolding fin using b st(8) by simp
  have cl: "clock ?fin \<le> last (t # ts) + ?d" unfolding fin using b by simp
  have dflt: "throttleByOr300 None = 300" "throttleByOr300 (Some d) = d"
    by (simp_all add: throttleByOr300_def)
  from advance_single [OF j nc cl, of T] ends j
  have run: "scrollEnds ?fin = scrollEnds (advance t ?h)
       \<and> map snd (pendingTimeouts ?fin) = [last (t # ts) + ?d]
       \<and> scrollEnds (advance T ?fin)
           = scrollEnds (advance t ?h)
             @ (if last (t # ts) + ?d \<le> T then [last (t # ts) + ?d] else [])"
    by simp
  from run dflt show ?thesis by simp
qed

theorem onScrollStop_burst_one_emission_witness:
  "burst (throttleByOr300 None) [1000, 1200]
   \<and> clock (scrollEvents [0, 100, 350] (onScrollStop 0 None)) \<le> 1000
   \<and> scrollEnds (scrollEvents [1000, 1200] (scrollEvents [0, 100, 350] (onScrollStop 0 None)))
       = [650]
   \<and> scrollEnds (advance 1499
        (scrollEvents [1000, 1200] (scrollEvents [0, 100, 350] (onScrollStop 0 None))))
       = [650]
   \<and> scrollEnds (advance 2000
        (scrollEvents [1000, 1200] (scrollEvents [0, 100, 350] (onScrollStop 0 None))))
       = [650, 1500]"
proof -
  have b: "burst (throttleByOr300 None) (1000 # [1200])"
    by (simp add: throttleByOr300_def)
  have c: "clock (scrollEvents [0, 100, 350] (onScrollStop 0 None)) \<le> 1000"
    by (simp add: scrollEvent_def advance_def scrollListener_def setTimeout_def
        clearTimeout_def Let_def onScrollStop_def observeNext_def throttleByOr300_def)
  have e: "scrollEnds (advance 1000 (scrollEvents [0, 100, 350] (onScrollStop 0 None))) = [650]"
    by (simp add: scrollEvent_def advance_def scrollListener_def setTimeout_def
        clearTimeout_def Let_def onScrollStop_def observeNext_def throttleByOr300_def)
  have d: "throttleByOr300 None = 300"
    by (simp add: throttleByOr300_def)
  from onScrollStop_burst_one_emission [OF b c, where T = 1499 and d = 500]
    onScrollStop_burst_one_emission [OF b c, where T = 2000 and d = 500]
  show ?thesis
    using b c e by (simp add: d)
qed

end
